theory Spec2Isabelle
  imports Complex_Main "HOL-Library.Multiset"
begin

section \<open>Python values and exceptions\<close>

text \<open>
  The exceptions that the modelled code can raise. \<open>ValueError\<close> is what \<^verbatim>\<open>int()\<close>
  raises on a NaN; \<open>OperationalError\<close> is SQLAlchemy's exception for a connection that
  cannot be opened; \<open>DBAPIError\<close> stands for every error the store reports while it
  executes a statement. None of the modelled functions has a \<^verbatim>\<open>try\<close> block, so an
  exception always reaches the caller: a function that may raise returns
  \<open>py_error + 'a\<close>, with \<open>Inl\<close> for the exception.
\<close>

datatype py_error = ValueError | OperationalError | DBAPIError


subsection \<open>Decimal rendering of integers: \<^verbatim>\<open>str(i)\<close> and f-string fields\<close>

fun digits :: "nat \<Rightarrow> string" where
  "digits n = (if n < 10 then [''0123456789'' ! n]
               else digits (n div 10) @ [''0123456789'' ! (n mod 10)])"

definition str :: "int \<Rightarrow> string" where
  "str i = (if i < 0 then CHR ''-'' # digits (nat (- i)) else digits (nat i))"


section \<open>db_utils.py: \<^verbatim>\<open>get_engine\<close>\<close>







section \<open>The spatial store\<close>

text \<open>
  The three tables the queries read. A point carries its SRID and two coordinates; a
  polygon its SRID and its ring. The listing row has the seven columns that
  \<^verbatim>\<open>fetch_listings\<close> selects; \<open>price\<close> is nullable.
\<close>

record point =
  srid :: int
  coord_x :: rat
  coord_y :: rat

record polygon =
  poly_srid :: int
  ring :: "(rat \<times> rat) list"

record listing =
  bnb_id :: int
  bnb_name :: string
  bnb_price :: "rat option"
  bnb_room_type :: string
  bnb_latitude :: rat
  bnb_longitude :: rat
  bnb_listing_geom :: point

record neighborhood =
  nh_name :: string
  nh_geom :: polygon

record subway_station =
  ss_geom :: point

text \<open>
  The store is the three tables, the two geometric procedures of the server that this
  development does not look into (the point-in-polygon test behind \<^verbatim>\<open>ST_Contains\<close> and the
  reprojection behind \<^verbatim>\<open>ST_Transform\<close>), two flags that say whether opening a connection
  or executing a statement fails, the number of connections currently checked out, and
  the order in which the server happens to deliver the rows of a query that has no
  \<^verbatim>\<open>ORDER BY\<close>: rows come by ascending \<open>scan_order\<close>, rows of equal rank in table order.
\<close>

record database =
  nyc_listings_bnb :: "listing list"
  nyc_neighborhoods :: "neighborhood list"
  nyc_subway_stations :: "subway_station list"
  point_in_polygon :: "polygon \<Rightarrow> rat \<times> rat \<Rightarrow> bool"
  reproject :: "int \<Rightarrow> int \<Rightarrow> rat \<times> rat \<Rightarrow> rat \<times> rat"
  connect_fails :: bool
  execute_fails :: bool
  checked_out :: nat
  scan_order :: "listing \<Rightarrow> nat"

subsection \<open>The PostGIS functions the query text names\<close>

definition ST_SRID :: "polygon \<Rightarrow> int" where
  "ST_SRID g = poly_srid g"

text \<open>\<^verbatim>\<open>ST_Transform\<close> returns a geometry in the target SRID; a geometry that is already
  there is returned as it is.\<close>

definition ST_Transform :: "database \<Rightarrow> point \<Rightarrow> int \<Rightarrow> point" where
  "ST_Transform db g target =
     (if srid g = target then g
      else let xy = reproject db (srid g) target (coord_x g, coord_y g)
           in \<lparr>srid = target, coord_x = fst xy, coord_y = snd xy\<rparr>)"

definition ST_Contains :: "database \<Rightarrow> polygon \<Rightarrow> point \<Rightarrow> bool" where
  "ST_Contains db poly g = point_in_polygon db poly (coord_x g, coord_y g)"

text \<open>
  \<^verbatim>\<open>ST_DWithin(g1, g2, d)\<close> on two values of type \<^verbatim>\<open>geometry\<close> compares their planar
  distance, in the units of their spatial reference system, with \<open>d\<close>. The query
  applies it to the results of \<^verbatim>\<open>ST_Transform(_, 4326)\<close>, which are of type
  \<^verbatim>\<open>geometry\<close> with coordinates in degrees of longitude and latitude.
\<close>

definition ST_DWithin :: "point \<Rightarrow> point \<Rightarrow> rat \<Rightarrow> bool" where
  "ST_DWithin g1 g2 d =
     ((coord_x g1 - coord_x g2)\<^sup>2 + (coord_y g1 - coord_y g2)\<^sup>2 \<le> d\<^sup>2)"

text \<open>A comparison with a NULL is not true, so the row is dropped.\<close>

fun numeric_ge :: "rat option \<Rightarrow> rat \<Rightarrow> bool" where
  "numeric_ge None b = False"
| "numeric_ge (Some a) b = (b \<le> a)"

fun numeric_lt :: "rat option \<Rightarrow> rat \<Rightarrow> bool" where
  "numeric_lt None b = False"
| "numeric_lt (Some a) b = (a < b)"

subsection \<open>Connections: \<^verbatim>\<open>with engine.connect() as conn\<close>\<close>

definition connect :: "database \<Rightarrow> py_error + database" where
  "connect db = (if connect_fails db then Inl OperationalError
                 else Inr (db\<lparr>checked_out := checked_out db + 1\<rparr>))"

definition close :: "database \<Rightarrow> database" where
  "close conn = conn\<lparr>checked_out := checked_out conn - 1\<rparr>"

section \<open>app.py: \<^verbatim>\<open>get_price_categories\<close>\<close>

text \<open>
  \<^verbatim>\<open>SELECT price::numeric AS price FROM nyc_listings_bnb WHERE price IS NOT NULL\<close>:
  the non-null prices, in table order.
\<close>

definition select_prices :: "database \<Rightarrow> rat list" where
  "select_prices db = [p. Some p \<leftarrow> map bnb_price (nyc_listings_bnb db)]"

text \<open>\<^verbatim>\<open>pd.read_sql(sql, conn)['price']\<close>: the column, or the store's error.\<close>

definition read_sql_prices :: "database \<Rightarrow> py_error + rat list" where
  "read_sql_prices conn =
     (if execute_fails conn then Inl DBAPIError else Inr (select_prices conn))"

text \<open>
  \<^verbatim>\<open>Series.quantile(q)\<close> with pandas' default linear interpolation: on the sorted values,
  the virtual index \<open>(n - 1) * q\<close> is split into its floor and its fraction, and the
  result interpolates between the value at the floor and the next one (the last value
  when there is no next one). On an empty column the result is NaN, here \<open>None\<close>.
  Prices are exact rationals: the rounding of binary floating point is not modelled.
\<close>

definition lerp :: "rat \<Rightarrow> rat \<Rightarrow> rat \<Rightarrow> rat" where
  "lerp a b t = a + (b - a) * t"

definition quantile :: "rat list \<Rightarrow> rat \<Rightarrow> rat option" where
  "quantile prices q =
     (if prices = [] then None
      else let arr = sort prices;
               n = length arr;
               virtual_index = of_nat (n - 1) * q;
               previous_index = nat \<lfloor>virtual_index\<rfloor>;
               next_index = min (previous_index + 1) (n - 1);
               gamma = virtual_index - of_int \<lfloor>virtual_index\<rfloor>
           in Some (lerp (arr ! previous_index) (arr ! next_index) gamma))"

text \<open>\<^verbatim>\<open>Series.max()\<close>: NaN on an empty column.\<close>

fun series_max :: "rat list \<Rightarrow> rat option" where
  "series_max [] = None"
| "series_max (p # ps) = Some (fold max ps p)"

text \<open>\<^verbatim>\<open>int(x)\<close> truncates towards zero and raises \<open>ValueError\<close> on NaN.\<close>

definition trunc :: "rat \<Rightarrow> int" where
  "trunc r = (if 0 \<le> r then \<lfloor>r\<rfloor> else \<lceil>r\<rceil>)"

fun py_int :: "rat option \<Rightarrow> py_error + int" where
  "py_int None = Inl ValueError"
| "py_int (Some r) = Inr (trunc r)"

type_synonym category = "string \<times> int \<times> int"

text \<open>Lines 29 to 39 of app.py: the four categories from the price column.\<close>

definition price_categories :: "rat list \<Rightarrow> py_error + category list" where
  "price_categories prices =
     (case py_int (quantile prices (1/4)) of Inl e \<Rightarrow> Inl e | Inr q1 \<Rightarrow>
      case py_int (quantile prices (1/2)) of Inl e \<Rightarrow> Inl e | Inr q2 \<Rightarrow>
      case py_int (quantile prices (3/4)) of Inl e \<Rightarrow> Inl e | Inr q3 \<Rightarrow>
      case py_int (series_max prices) of Inl e \<Rightarrow> Inl e | Inr max_p \<Rightarrow>
        Inr [(''Below $'' @ str q1, (0, q1)),
             (''$'' @ str q1 @ '' to $'' @ str q2, (q1, q2)),
             (''$'' @ str q2 @ '' to $'' @ str q3, (q2, q3)),
             (''Above $'' @ str q3, (q3, max_p + 1))])"

text \<open>
  The whole function: open a connection, read the column, release the connection
  (also when reading raised), compute. The memoisation of \<^verbatim>\<open>st.cache_data\<close> is not
  modelled: it does not change the value computed.
\<close>

definition get_price_categories :: "database \<Rightarrow> (py_error + category list) \<times> database" where
  "get_price_categories db =
     (case connect db of
        Inl e \<Rightarrow> (Inl e, db)
      | Inr conn \<Rightarrow>
          (case read_sql_prices conn of
             Inl e \<Rightarrow> (Inl e, close conn)
           | Inr prices \<Rightarrow> (price_categories prices, close conn)))"

text \<open>
  Lines 87 to 89 of app.py: the script calls \<^verbatim>\<open>get_price_categories()\<close> at its top
  level, outside any \<^verbatim>\<open>try\<close> block, and offers the labels in a selector. An exception
  raised by the call is not caught: the run of the script ends with it.
\<close>

datatype script_run = Aborted_by py_error | Price_selector "string list"

definition price_selector :: "database \<Rightarrow> script_run" where
  "price_selector db =
     (case fst (get_price_categories db) of
        Inl e \<Rightarrow> Aborted_by e
      | Inr categories \<Rightarrow> Price_selector (map fst categories))"

text \<open>The boundaries of a list of categories: the first low bound, then every high bound.\<close>

fun boundaries :: "category list \<Rightarrow> int list" where
  "boundaries [] = []"
| "boundaries (c # cs) = fst (snd c) # map (\<lambda>c. snd (snd c)) (c # cs)"

text \<open>How many of the half-open intervals contain a value.\<close>

definition holders :: "category list \<Rightarrow> rat \<Rightarrow> nat" where
  "holders cats v =
     length [c \<leftarrow> cats. of_int (fst (snd c)) \<le> v \<and> v < of_int (snd (snd c))]"

section \<open>app.py: \<^verbatim>\<open>fetch_listings\<close>\<close>

subsection \<open>The query text and its parameters\<close>

text \<open>A triple-quoted literal, line by line; \<open>join_lines\<close> puts the newlines back.\<close>

fun join_lines :: "string list \<Rightarrow> string" where
  "join_lines [] = []"
| "join_lines [l] = l"
| "join_lines (l # ls) = l @ CHR 0x0A # join_lines ls"

definition sql_select :: string where
  "sql_select = join_lines
     ['''',
      ''    SELECT'',
      ''        bnb.id,'',
      ''        bnb.name,'',
      ''        bnb.price::numeric AS price,'',
      ''        bnb.room_type,'',
      ''        bnb.latitude,'',
      ''        bnb.longitude,'',
      ''        bnb.listing_geom'',
      ''    FROM nyc_listings_bnb bnb'',
      ''    JOIN nyc_neighborhoods nh ON ST_Contains(nh.geom, ST_Transform(bnb.listing_geom, ST_SRID(nh.geom)))'',
      ''    WHERE nh.name = :neighborhood'',
      ''      AND bnb.price::numeric >= :price_min'',
      ''      AND bnb.price::numeric < :price_max'',
      ''    '']"

definition sql_near_subway :: string where
  "sql_near_subway = join_lines
     ['''',
      ''        AND EXISTS ('',
      ''            SELECT 1 FROM nyc_subway_stations ss'',
      ''            WHERE ST_DWithin('',
      ''                ST_Transform(bnb.listing_geom, 4326),'',
      ''                ST_Transform(ss.geom, 4326),'',
      ''                400'',
      ''            )'',
      ''        )'',
      ''        '']"

datatype param = Text string | Numeric int

text \<open>Lines 42 to 74: the text and the dictionary of bound parameters that
  \<^verbatim>\<open>fetch_listings\<close> hands to \<^verbatim>\<open>read_postgis\<close>.\<close>

definition fetch_listings_query :: "string \<Rightarrow> int \<times> int \<Rightarrow> bool \<Rightarrow> string \<times> (string \<times> param) list" where
  "fetch_listings_query neighborhood price_range near_subway =
     (let sql = sql_select;
          params = [(''neighborhood'', Text neighborhood),
                    (''price_min'', Numeric (fst price_range)),
                    (''price_max'', Numeric (snd price_range))];
          sql = (if near_subway then sql @ sql_near_subway else sql)
      in (sql, params))"

subsection \<open>What the store computes for the two texts\<close>

text \<open>
  The join pairs every listing with every neighborhood whose polygon contains the
  listing's point, transformed to the polygon's SRID; the \<^verbatim>\<open>WHERE\<close> clause keeps the
  pairs of the named neighborhood in the half-open price range; the optional clause
  asks for a station within distance 400 of the listing, both transformed to SRID 4326.
  \<open>select_listings\<close> lists the rows in table order; \<open>read_postgis\<close> below receives
  them in the order of the server's scan.
\<close>

definition near_a_station :: "database \<Rightarrow> listing \<Rightarrow> bool" where
  "near_a_station db bnb =
     list_ex (\<lambda>ss. ST_DWithin (ST_Transform db (bnb_listing_geom bnb) 4326)
                               (ST_Transform db (ss_geom ss) 4326) 400)
             (nyc_subway_stations db)"

definition select_listings :: "database \<Rightarrow> string \<Rightarrow> rat \<Rightarrow> rat \<Rightarrow> bool \<Rightarrow> listing list" where
  "select_listings db neighborhood price_min price_max subway_clause =
     [bnb. bnb \<leftarrow> nyc_listings_bnb db, nh \<leftarrow> nyc_neighborhoods db,
           ST_Contains db (nh_geom nh)
             (ST_Transform db (bnb_listing_geom bnb) (ST_SRID (nh_geom nh))),
           nh_name nh = neighborhood,
           numeric_ge (bnb_price bnb) price_min,
           numeric_lt (bnb_price bnb) price_max,
           if subway_clause then near_a_station db bnb else True]"

text \<open>
  \<^verbatim>\<open>gpd.read_postgis(text(sql), conn, params=params, geom_col='listing_geom')\<close>: the
  store executes the statement with the parameters bound. A statement that fails, a
  text the store does not know and a parameter that is missing or of the wrong type
  raise.
\<close>

definition read_postgis :: "database \<Rightarrow> string \<Rightarrow> (string \<times> param) list \<Rightarrow> py_error + listing list" where
  "read_postgis conn sql params =
     (if execute_fails conn then Inl DBAPIError
      else case (map_of params ''neighborhood'', map_of params ''price_min'',
                 map_of params ''price_max'') of
             (Some (Text n), Some (Numeric lo), Some (Numeric hi)) \<Rightarrow>
               if sql = sql_select
                 then Inr (sort_key (scan_order conn)
                             (select_listings conn n (of_int lo) (of_int hi) False))
               else if sql = sql_select @ sql_near_subway
                 then Inr (sort_key (scan_order conn)
                             (select_listings conn n (of_int lo) (of_int hi) True))
               else Inl DBAPIError
           | _ \<Rightarrow> Inl DBAPIError)"

text \<open>The function: build the query, open a connection, execute, release the connection.
  The result is paired with the store as the call leaves it.\<close>

definition fetch_listings :: "database \<Rightarrow> string \<Rightarrow> int \<times> int \<Rightarrow> bool \<Rightarrow> (py_error + listing list) \<times> database" where
  "fetch_listings db neighborhood price_range near_subway =
     (let (sql, params) = fetch_listings_query neighborhood price_range near_subway
      in case connect db of
           Inl e \<Rightarrow> (Inl e, db)
         | Inr conn \<Rightarrow> (read_postgis conn sql params, close conn))"

text \<open>
  Two states of a store that hold the same tables, compute the same geometry and are
  equally reachable. They may deliver rows in different orders and have different
  numbers of connections checked out.
\<close>

definition same_store :: "database \<Rightarrow> database \<Rightarrow> bool" where
  "same_store db db' =
     (nyc_listings_bnb db' = nyc_listings_bnb db \<and>
      nyc_neighborhoods db' = nyc_neighborhoods db \<and>
      nyc_subway_stations db' = nyc_subway_stations db \<and>
      point_in_polygon db' = point_in_polygon db \<and>
      reproject db' = reproject db \<and>
      connect_fails db' = connect_fails db \<and>
      execute_fails db' = execute_fails db)"

section \<open>app.py: the search flow of the page\<close>

text \<open>
  Streamlit runs the script from top to bottom on every interaction; a button's
  \<^verbatim>\<open>on_click\<close> callback runs first, then the script. What survives from one run to the
  next is the session state (\<open>search_clicked\<close>) and the values of the widgets. The
  first option of the neighborhood selector is the empty string. A run is recorded by
  what it shows and by the call of \<^verbatim>\<open>fetch_listings\<close> it makes, with its arguments;
  what the page draws from the result of the call is left out.
\<close>

record page =
  search_clicked :: bool
  selected_neighborhood :: string
  price_range :: "int \<times> int"
  near_subway :: bool

datatype interaction =
    Select_neighborhood string
  | Select_price_range "int \<times> int"
  | Check_near_subway bool
  | Click_search

datatype shown =
    Warning_select_neighborhood
  | Info_select_filters
  | Call_fetch_listings string "int \<times> int" bool

text \<open>Lines 97 to 101.\<close>

definition do_search :: "page \<Rightarrow> page \<times> shown list" where
  "do_search p =
     (if selected_neighborhood p \<noteq> [] then (p\<lparr>search_clicked := True\<rparr>, [])
      else (p, [Warning_select_neighborhood]))"

text \<open>Lines 105 to 126.\<close>

definition script :: "page \<Rightarrow> shown list" where
  "script p =
     (if search_clicked p
        then [Call_fetch_listings (selected_neighborhood p) (price_range p) (near_subway p)]
      else [Info_select_filters])"

fun interact :: "page \<Rightarrow> interaction \<Rightarrow> page \<times> shown list" where
  "interact p (Select_neighborhood n) =
     (let p' = p\<lparr>selected_neighborhood := n\<rparr> in (p', script p'))"
| "interact p (Select_price_range r) =
     (let p' = p\<lparr>price_range := r\<rparr> in (p', script p'))"
| "interact p (Check_near_subway b) =
     (let p' = p\<lparr>near_subway := b\<rparr> in (p', script p'))"
| "interact p Click_search =
     (let (p', out) = do_search p in (p', out @ script p'))"

text \<open>What each run of a sequence of interactions shows.\<close>

fun runs :: "page \<Rightarrow> interaction list \<Rightarrow> shown list list" where
  "runs p [] = []"
| "runs p (i # is) = (let (p', out) = interact p i in out # runs p' is)"

text \<open>The page when the session starts (lines 85 to 95): nothing selected, the first
  price range, the box unchecked, the flag cleared.\<close>

definition first_page :: "int \<times> int \<Rightarrow> page" where
  "first_page r = \<lparr>search_clicked = False, selected_neighborhood = [],
                    price_range = r, near_subway = False\<rparr>"

section \<open>Stores used in the examples\<close>

text \<open>A rectangle stands for a polygon given by its lower-left and upper-right corners.\<close>

definition in_box :: "polygon \<Rightarrow> rat \<times> rat \<Rightarrow> bool" where
  "in_box poly xy =
     (case ring poly of
        [lo, hi] \<Rightarrow> fst lo < fst xy \<and> fst xy < fst hi \<and> snd lo < snd xy \<and> snd xy < snd hi
      | _ \<Rightarrow> False)"

definition soho :: neighborhood where
  "soho = \<lparr>nh_name = ''SoHo'',
           nh_geom = \<lparr>poly_srid = 4326, ring = [(-7401/100, 4072/100), (-7399/100, 4073/100)]\<rparr>\<rparr>"

definition loft :: listing where
  "loft = \<lparr>bnb_id = 1, bnb_name = ''Loft'', bnb_price = Some 150,
           bnb_room_type = ''Entire home/apt'',
           bnb_latitude = 40725/1000, bnb_longitude = -74,
           bnb_listing_geom = \<lparr>srid = 4326, coord_x = -74, coord_y = 40725/1000\<rparr>\<rparr>"

definition flat :: listing where
  "flat = \<lparr>bnb_id = 4, bnb_name = ''Flat'', bnb_price = Some 120,
           bnb_room_type = ''Private room'',
           bnb_latitude = 40726/1000, bnb_longitude = -74,
           bnb_listing_geom = \<lparr>srid = 4326, coord_x = -74, coord_y = 40726/1000\<rparr>\<rparr>"

definition studio :: listing where
  "studio = \<lparr>bnb_id = 2, bnb_name = ''Studio'', bnb_price = None,
             bnb_room_type = ''Private room'',
             bnb_latitude = 40725/1000, bnb_longitude = -74,
             bnb_listing_geom = \<lparr>srid = 4326, coord_x = -74, coord_y = 40725/1000\<rparr>\<rparr>"

definition penthouse :: listing where
  "penthouse = \<lparr>bnb_id = 3, bnb_name = ''Penthouse'', bnb_price = Some 1000,
                bnb_room_type = ''Entire home/apt'',
                bnb_latitude = 4078/100, bnb_longitude = -7396/100,
                bnb_listing_geom = \<lparr>srid = 4326, coord_x = -7396/100, coord_y = 4078/100\<rparr>\<rparr>"

text \<open>A station one degree of latitude north of the loft: about 111 kilometres away.\<close>

definition far_station :: subway_station where
  "far_station = \<lparr>ss_geom = \<lparr>srid = 4326, coord_x = -74, coord_y = 41725/1000\<rparr>\<rparr>"

text \<open>A station in Philadelphia, about 130 kilometres from the loft.\<close>

definition distant_station :: subway_station where
  "distant_station = \<lparr>ss_geom = \<lparr>srid = 4326, coord_x = -7516/100, coord_y = 3995/100\<rparr>\<rparr>"

text \<open>A row of the neighborhoods table whose name is the empty string.\<close>

definition nameless :: neighborhood where
  "nameless = \<lparr>nh_name = [],
               nh_geom = \<lparr>poly_srid = 4326, ring = [(-7401/100, 4072/100), (-7399/100, 4073/100)]\<rparr>\<rparr>"

definition store :: "listing list \<Rightarrow> neighborhood list \<Rightarrow> subway_station list \<Rightarrow> database" where
  "store ls ns ss =
     \<lparr>nyc_listings_bnb = ls, nyc_neighborhoods = ns, nyc_subway_stations = ss,
      point_in_polygon = in_box, reproject = (\<lambda>s t xy. xy),
      connect_fails = False, execute_fails = False, checked_out = 0,
      scan_order = (\<lambda>bnb. 0)\<rparr>"

section \<open>Facts about the quantiles\<close>

lemma series_max_Max: "prices \<noteq> [] \<Longrightarrow> series_max prices = Some (Max (set prices))"
  by (cases prices) (simp_all add: Max.set_eq_fold[symmetric])

lemma trunc_mono:
  assumes le: "r \<le> s"
  shows "trunc r \<le> trunc s"
proof (cases "0 \<le> r")
  case True
  then show ?thesis using le by (simp add: trunc_def floor_mono)
next
  case False
  have "\<lceil>r\<rceil> \<le> \<lceil>s\<rceil>" using le by (rule ceiling_mono)
  moreover have "\<lceil>r\<rceil> \<le> 0" using False by (simp add: ceiling_le_zero)
  moreover have "0 \<le> \<lfloor>s\<rfloor>" if "0 \<le> s" using that by simp
  ultimately have "\<lceil>r\<rceil> \<le> (if 0 \<le> s then \<lfloor>s\<rfloor> else \<lceil>s\<rceil>)"
    by (cases "0 \<le> s") (simp_all only: if_True if_False, linarith)
  then show ?thesis using False by (simp add: trunc_def)
qed

lemma lerp_between:
  assumes "a \<le> b" "0 \<le> t" "t \<le> 1"
  shows "a \<le> lerp a b t" "lerp a b t \<le> b"
proof -
  have "0 \<le> (b - a) * t" using assms by simp
  then show "a \<le> lerp a b t" by (simp add: lerp_def)
  have "(b - a) * t \<le> (b - a) * 1" using assms by (intro mult_left_mono) simp_all
  then show "lerp a b t \<le> b" by (simp add: lerp_def)
qed

lemma lerp_mono:
  assumes "a \<le> b" "s \<le> t"
  shows "lerp a b s \<le> lerp a b t"
proof -
  have "(b - a) * s \<le> (b - a) * t" using assms by (intro mult_left_mono) simp_all
  then show ?thesis by (simp add: lerp_def)
qed

lemma quantile_Some:
  assumes "prices \<noteq> []"
  shows "quantile prices q =
    Some (lerp (sort prices ! nat \<lfloor>of_nat (length prices - 1) * q\<rfloor>)
               (sort prices ! min (nat \<lfloor>of_nat (length prices - 1) * q\<rfloor> + 1) (length prices - 1))
               (of_nat (length prices - 1) * q - of_int \<lfloor>of_nat (length prices - 1) * q\<rfloor>))"
  using assms by (simp add: quantile_def Let_def)

lemma quantile_between:
  assumes ne: "prices \<noteq> []" and q: "0 \<le> q" "q \<le> 1"
  shows "\<exists>v i. quantile prices q = Some v \<and> i < length prices \<and>
           i = nat \<lfloor>of_nat (length prices - 1) * q\<rfloor> \<and>
           sort prices ! i \<le> v \<and> v \<le> sort prices ! min (i + 1) (length prices - 1)"
proof -
  define n where "n = length prices"
  define vi :: rat where "vi = of_nat (n - 1) * q"
  define i where "i = nat \<lfloor>vi\<rfloor>"
  have n: "0 < n" using ne by (simp add: n_def)
  have vi0: "0 \<le> vi" using q by (simp add: vi_def)
  have "vi \<le> of_nat (n - 1) * 1" unfolding vi_def using q by (intro mult_left_mono) simp_all
  then have vile: "vi \<le> of_nat (n - 1)" by simp
  then have "\<lfloor>vi\<rfloor> \<le> int (n - 1)" by (simp add: floor_le_iff)
  then have i: "i \<le> n - 1" by (simp add: i_def)
  then have iless: "i < n" using n by simp
  have srt: "sorted (sort prices)" by simp
  have "min (i + 1) (n - 1) < n" "i \<le> min (i + 1) (n - 1)"
    using i n by arith+
  then have "min (i + 1) (n - 1) < length (sort prices)" "i \<le> min (i + 1) (n - 1)"
    by (simp_all add: n_def)
  then have "sort prices ! i \<le> sort prices ! min (i + 1) (n - 1)"
    by (intro sorted_nth_mono[OF srt])
  moreover have "0 \<le> vi - of_int \<lfloor>vi\<rfloor>"
    by simp
  moreover have "vi - of_int \<lfloor>vi\<rfloor> \<le> 1"
    by linarith
  ultimately have "sort prices ! i \<le> lerp (sort prices ! i) (sort prices ! min (i + 1) (n - 1)) (vi - of_int \<lfloor>vi\<rfloor>)"
    "lerp (sort prices ! i) (sort prices ! min (i + 1) (n - 1)) (vi - of_int \<lfloor>vi\<rfloor>) \<le> sort prices ! min (i + 1) (n - 1)"
    by (auto intro: lerp_between)
  then show ?thesis
    using quantile_Some[OF ne, of q] iless
    unfolding n_def[symmetric] vi_def[symmetric] i_def[symmetric] by simp
qed

lemma quantile_mono:
  assumes ne: "prices \<noteq> []" and q: "0 \<le> q" "q \<le> q'" "q' \<le> 1"
  shows "\<exists>v v'. quantile prices q = Some v \<and> quantile prices q' = Some v' \<and> v \<le> v'"
proof -
  define n where "n = length prices"
  define vi :: rat where "vi = of_nat (n - 1) * q"
  define vi' :: rat where "vi' = of_nat (n - 1) * q'"
  define i where "i = nat \<lfloor>vi\<rfloor>"
  define i' where "i' = nat \<lfloor>vi'\<rfloor>"
  have q0: "0 \<le> q'" "q \<le> 1" using q by simp_all
  obtain v where v: "quantile prices q = Some v" "i < n" "sort prices ! i \<le> v"
      "v \<le> sort prices ! min (i + 1) (n - 1)"
    using quantile_between[OF ne q(1) q0(2)] unfolding n_def i_def vi_def by blast
  obtain v' where v': "quantile prices q' = Some v'" "i' < n" "sort prices ! i' \<le> v'"
      "v' \<le> sort prices ! min (i' + 1) (n - 1)"
    using quantile_between[OF ne q0(1) q(3)] unfolding n_def i'_def vi'_def by blast
  have vivi: "vi \<le> vi'" unfolding vi_def vi'_def using q by (intro mult_left_mono) simp_all
  have vi0: "0 \<le> vi" using q by (simp add: vi_def)
  have ii: "i \<le> i'" unfolding i_def i'_def using vivi by (simp add: floor_mono nat_mono)
  have srt: "sorted (sort prices)" by simp
  have "v \<le> v'"
  proof (cases "i = i'")
    case True
    have fl: "\<lfloor>vi\<rfloor> = \<lfloor>vi'\<rfloor>"
      using True vi0 vivi unfolding i_def i'_def
      by (metis (no_types, opaque_lifting) nat_eq_iff2 order_trans zero_le_floor)
    have ab: "sort prices ! i \<le> sort prices ! min (i + 1) (n - 1)"
      using v(2) by (intro sorted_nth_mono[OF srt]) (simp_all add: n_def)
    have "v = lerp (sort prices ! i) (sort prices ! min (i + 1) (n - 1)) (vi - of_int \<lfloor>vi\<rfloor>)"
      using v(1) quantile_Some[OF ne, of q] unfolding n_def i_def vi_def by simp
    moreover have "v' = lerp (sort prices ! i) (sort prices ! min (i + 1) (n - 1)) (vi' - of_int \<lfloor>vi\<rfloor>)"
      using v'(1) quantile_Some[OF ne, of q'] True fl unfolding n_def i_def i'_def vi'_def vi_def by simp
    ultimately show ?thesis using lerp_mono[OF ab, of "vi - of_int \<lfloor>vi\<rfloor>" "vi' - of_int \<lfloor>vi\<rfloor>"] vivi by simp
  next
    case False
    then have lt: "i + 1 \<le> i'" using ii by simp
    then have "min (i + 1) (n - 1) = i + 1" using v'(2) by simp
    then have "v \<le> sort prices ! (i + 1)" using v(4) by simp
    also have "\<dots> \<le> sort prices ! i'"
      using lt v'(2) by (intro sorted_nth_mono[OF srt]) (simp_all add: n_def)
    also have "\<dots> \<le> v'" by (rule v'(3))
    finally show ?thesis .
  qed
  then show ?thesis using v(1) v'(1) by blast
qed

lemma quantile_range:
  assumes ne: "prices \<noteq> []" and q: "0 \<le> q" "q \<le> 1"
  shows "\<exists>v. quantile prices q = Some v \<and> Min (set prices) \<le> v \<and> v \<le> Max (set prices)"
proof -
  obtain v i where v: "quantile prices q = Some v" "i < length prices"
      "sort prices ! i \<le> v" "v \<le> sort prices ! min (i + 1) (length prices - 1)"
    using quantile_between[OF ne q] by blast
  have "sort prices ! i \<in> set (sort prices)" using v(2) by (intro nth_mem) simp
  then have "Min (set prices) \<le> sort prices ! i" by simp
  moreover have "sort prices ! min (i + 1) (length prices - 1) \<in> set (sort prices)"
    using v(2) by (intro nth_mem) simp
  then have "sort prices ! min (i + 1) (length prices - 1) \<le> Max (set prices)" by simp
  ultimately show ?thesis using v by (meson order_trans)
qed

text \<open>The shape of the result on a non-empty column, and the order of its boundaries.\<close>

lemma price_categories_shape:
  assumes ne: "prices \<noteq> []"
  shows "\<exists>q1 q2 q3 v1 v2 v3.
           quantile prices (1/4) = Some v1 \<and> quantile prices (1/2) = Some v2 \<and>
           quantile prices (3/4) = Some v3 \<and>
           q1 = trunc v1 \<and> q2 = trunc v2 \<and> q3 = trunc v3 \<and>
           q1 \<le> q2 \<and> q2 \<le> q3 \<and> q3 \<le> trunc (Max (set prices)) \<and>
           trunc (Min (set prices)) \<le> q1 \<and>
           price_categories prices =
             Inr [(''Below $'' @ str q1, (0, q1)),
                  (''$'' @ str q1 @ '' to $'' @ str q2, (q1, q2)),
                  (''$'' @ str q2 @ '' to $'' @ str q3, (q2, q3)),
                  (''Above $'' @ str q3, (q3, trunc (Max (set prices)) + 1))]"
proof -
  obtain v1 v2 where a: "quantile prices (1/4) = Some v1" "quantile prices (1/2) = Some v2" "v1 \<le> v2"
    using quantile_mono[OF ne, of "1/4" "1/2"] by auto
  obtain v2' v3 where b: "quantile prices (1/2) = Some v2'" "quantile prices (3/4) = Some v3" "v2' \<le> v3"
    using quantile_mono[OF ne, of "1/2" "3/4"] by auto
  have v2: "v2' = v2" using a b by simp
  obtain v3' where c: "quantile prices (3/4) = Some v3'" "v3' \<le> Max (set prices)"
    using quantile_range[OF ne, of "3/4"] by auto
  obtain v1' where d: "quantile prices (1/4) = Some v1'" "Min (set prices) \<le> v1'"
    using quantile_range[OF ne, of "1/4"] by auto
  have v3: "v3' = v3" using b c by simp
  have v1: "v1' = v1" using a d by simp
  have "trunc v1 \<le> trunc v2" "trunc v2 \<le> trunc v3" "trunc v3 \<le> trunc (Max (set prices))"
    "trunc (Min (set prices)) \<le> trunc v1"
    using a b c d v1 v2 v3 by (auto intro: trunc_mono)
  moreover have "price_categories prices =
             Inr [(''Below $'' @ str (trunc v1), (0, trunc v1)),
                  (''$'' @ str (trunc v1) @ '' to $'' @ str (trunc v2), (trunc v1, trunc v2)),
                  (''$'' @ str (trunc v2) @ '' to $'' @ str (trunc v3), (trunc v2, trunc v3)),
                  (''Above $'' @ str (trunc v3), (trunc v3, trunc (Max (set prices)) + 1))]"
    using a b v2 series_max_Max[OF ne] by (simp add: price_categories_def)
  ultimately show ?thesis using a b v2 by blast
qed

lemma price_categories_Nil: "price_categories [] = Inl ValueError"
  by (simp add: price_categories_def quantile_def)

lemma get_price_categories_reachable:
  assumes "\<not> connect_fails db" "\<not> execute_fails db"
  shows "get_price_categories db =
           (price_categories (select_prices db), db)"
  using assms
  by (simp add: get_price_categories_def connect_def close_def read_sql_prices_def select_prices_def)

lemma holders_four:
  fixes v :: rat
  assumes "0 \<le> q1" "q1 \<le> q2" "q2 \<le> q3" "q3 < m" "0 \<le> v" "v < of_int m"
  shows "holders [(l1, 0, q1), (l2, q1, q2), (l3, q2, q3), (l4, q3, m)] v = 1"
proof -
  have le: "(of_int q1 :: rat) \<le> of_int q2" "(of_int q2 :: rat) \<le> of_int q3"
    using assms by simp_all
  show ?thesis using le assms(5,6) by (auto simp: holders_def)
qed

text \<open>Claim C1, as the code has it: on a reachable store whose price column has at
  least one non-null value and no negative one, the four intervals are
  \<open>[0, q1)\<close>, \<open>[q1, q2)\<close>, \<open>[q2, q3)\<close> and \<open>[q3, m + 1)\<close> with
  \<open>0 \<le> q1 \<le> q2 \<le> q3 < m + 1\<close>, where \<open>m\<close> is the largest price rounded down;
  the largest price is below \<open>m + 1\<close>, and every value from 0 to the largest
  price lies in exactly one of the four intervals.\<close>

theorem get_price_categories_boundaries:
  assumes "\<not> connect_fails db" and "\<not> execute_fails db"
    and "prices = select_prices db"
    and "prices \<noteq> []" and "\<forall>p\<in>set prices. 0 \<le> p"
    and "0 \<le> v" and "v \<le> Max (set prices)"
  shows "\<exists>q1 q2 q3 cats.
           fst (get_price_categories db) = Inr cats \<and>
           map snd cats = [(0, q1), (q1, q2), (q2, q3), (q3, \<lfloor>Max (set prices)\<rfloor> + 1)] \<and>
           0 \<le> q1 \<and> q1 \<le> q2 \<and> q2 \<le> q3 \<and> q3 < \<lfloor>Max (set prices)\<rfloor> + 1 \<and>
           Max (set prices) < of_int (\<lfloor>Max (set prices)\<rfloor> + 1) \<and>
           holders cats v = 1"
proof -
  obtain q1 q2 q3 where q:
    "q1 \<le> q2" "q2 \<le> q3" "q3 \<le> trunc (Max (set prices))" "trunc (Min (set prices)) \<le> q1"
    "price_categories prices =
       Inr [(''Below $'' @ str q1, (0, q1)),
            (''$'' @ str q1 @ '' to $'' @ str q2, (q1, q2)),
            (''$'' @ str q2 @ '' to $'' @ str q3, (q2, q3)),
            (''Above $'' @ str q3, (q3, trunc (Max (set prices)) + 1))]"
    using price_categories_shape[OF assms(4)] by blast
  define cats where "cats =
       [(''Below $'' @ str q1, (0, q1)),
        (''$'' @ str q1 @ '' to $'' @ str q2, (q1, q2)),
        (''$'' @ str q2 @ '' to $'' @ str q3, (q2, q3)),
        (''Above $'' @ str q3, (q3, \<lfloor>Max (set prices)\<rfloor> + 1))]"
  have "Min (set prices) \<in> set prices" "Max (set prices) \<in> set prices"
    using assms(4) by simp_all
  then have nonneg: "0 \<le> Min (set prices)" "0 \<le> Max (set prices)"
    using assms(5) by blast+
  then have tr: "trunc (Max (set prices)) = \<lfloor>Max (set prices)\<rfloor>" "0 \<le> trunc (Min (set prices))"
    by (simp_all add: trunc_def)
  have q1: "0 \<le> q1" using tr(2) q(4) by simp
  have q3: "q3 < \<lfloor>Max (set prices)\<rfloor> + 1" using q(3) tr(1) by simp
  have mx: "Max (set prices) < of_int (\<lfloor>Max (set prices)\<rfloor> + 1)" by linarith
  then have v: "v < of_int (\<lfloor>Max (set prices)\<rfloor> + 1)" using assms(7) by simp
  have "fst (get_price_categories db) = price_categories prices"
    using get_price_categories_reachable[OF assms(1,2)] assms(3) by simp
  then have res: "fst (get_price_categories db) = Inr cats"
    using q(5) tr(1) by (simp add: cats_def)
  have shape: "map snd cats = [(0, q1), (q1, q2), (q2, q3), (q3, \<lfloor>Max (set prices)\<rfloor> + 1)]"
    by (simp add: cats_def)
  have one: "holders cats v = 1"
    unfolding cats_def by (rule holders_four[OF q1 q(1) q(2) q3 assms(6) v])
  show ?thesis
    by (intro exI[of _ q1] exI[of _ q2] exI[of _ q3] exI[of _ cats] conjI
        res shape q1 q(1) q(2) q3 mx one)
qed

theorem get_price_categories_boundaries_witness:
  "\<not> connect_fails (store [loft, studio, penthouse] [] []) \<and>
   \<not> execute_fails (store [loft, studio, penthouse] [] []) \<and>
   (\<exists>q1 q2 q3 cats.
           fst (get_price_categories (store [loft, studio, penthouse] [] [])) = Inr cats \<and>
           map snd cats = [(0, q1), (q1, q2), (q2, q3), (q3, 1001)] \<and>
           0 \<le> q1 \<and> q1 \<le> q2 \<and> q2 \<le> q3 \<and> q3 < 1001 \<and> holders cats 575 = 1)"
  using get_price_categories_boundaries[of "store [loft, studio, penthouse] [] []" "[150, 1000]" 575]
  by (simp add: select_prices_def store_def loft_def studio_def penthouse_def)

theorem price_boundaries_not_strict:
  "map_sum id boundaries (fst (get_price_categories (store [loft, studio] [] []))) = Inr [0, 150, 150, 150, 151]
   \<and> \<not> sorted_wrt (<) [0, 150, 150, 150, 151 :: int]"
  by (simp add: get_price_categories_def connect_def close_def read_sql_prices_def
      select_prices_def store_def loft_def studio_def price_categories_def quantile_def lerp_def trunc_def)

lemma price_selector_raises:
  "fst (get_price_categories db) = Inl e \<Longrightarrow> price_selector db = Aborted_by e"
  by (simp add: price_selector_def)

text \<open>Claim C3, as the code has it: on a reachable store whose price column has no
  non-null row, \<open>get_price_categories\<close> raises \<open>ValueError\<close> and the run of the script
  that calls it ends with that exception; when the column has a non-null row it
  returns exactly four entries.\<close>

theorem get_price_categories_raises_or_four:
  assumes "\<not> connect_fails db" and "\<not> execute_fails db"
  shows "(select_prices db = [] \<longrightarrow>
            fst (get_price_categories db) = Inl ValueError \<and>
            price_selector db = Aborted_by ValueError) \<and>
         (select_prices db \<noteq> [] \<longrightarrow>
            (\<exists>cats. fst (get_price_categories db) = Inr cats \<and> length cats = 4))"
proof (intro conjI impI)
  assume "select_prices db = []"
  then show raises: "fst (get_price_categories db) = Inl ValueError"
    using get_price_categories_reachable[OF assms] by (simp add: price_categories_Nil)
  then show "price_selector db = Aborted_by ValueError"
    by (rule price_selector_raises)
next
  assume ne: "select_prices db \<noteq> []"
  show "\<exists>cats. fst (get_price_categories db) = Inr cats \<and> length cats = 4"
    using price_categories_shape[OF ne] get_price_categories_reachable[OF assms] by auto
qed

theorem get_price_categories_raises_or_four_witness:
  "fst (get_price_categories (store [] [soho] [])) = Inl ValueError \<and>
   price_selector (store [] [soho] []) = Aborted_by ValueError \<and>
   (\<exists>cats. fst (get_price_categories (store [loft, penthouse] [] [])) = Inr cats \<and> length cats = 4)"
  using get_price_categories_raises_or_four[of "store [] [soho] []"]
    get_price_categories_raises_or_four[of "store [loft, penthouse] [] []"]
  by (simp add: select_prices_def store_def loft_def penthouse_def)

theorem empty_price_column_aborts_script:
  "fst (get_price_categories (store [studio] [soho] [])) = Inl ValueError \<and>
   price_selector (store [studio] [soho] []) = Aborted_by ValueError"
  by (simp add: price_selector_def get_price_categories_def connect_def close_def
      read_sql_prices_def select_prices_def store_def studio_def price_categories_def quantile_def)

section \<open>Facts about the query\<close>

lemma sql_near_subway_nonempty: "sql_near_subway \<noteq> []"
  by (simp add: sql_near_subway_def)

lemma close_connect:
  "\<not> connect_fails db \<Longrightarrow> connect db = Inr conn \<Longrightarrow> close conn = db"
  by (auto simp: connect_def close_def)

lemma ST_Transform_conn [simp]:
  "ST_Transform (db\<lparr>checked_out := k\<rparr>) g t = ST_Transform db g t"
  by (simp add: ST_Transform_def Let_def)

lemma ST_Contains_conn [simp]:
  "ST_Contains (db\<lparr>checked_out := k\<rparr>) poly g = ST_Contains db poly g"
  by (simp add: ST_Contains_def)

lemma near_a_station_conn [simp]:
  "near_a_station (db\<lparr>checked_out := k\<rparr>) bnb = near_a_station db bnb"
  by (simp add: near_a_station_def)

lemma select_listings_conn:
  "select_listings (db\<lparr>checked_out := k\<rparr>) n lo hi b = select_listings db n lo hi b"
  by (simp add: select_listings_def cong: if_cong)

lemma fetch_listings_connect_fails:
  "connect_fails db \<Longrightarrow> fetch_listings db n r b = (Inl OperationalError, db)"
  by (simp add: fetch_listings_def fetch_listings_query_def connect_def)

lemma fetch_listings_execute_fails:
  "\<not> connect_fails db \<Longrightarrow> execute_fails db \<Longrightarrow>
     fetch_listings db n r b = (Inl DBAPIError, db)"
  by (simp add: fetch_listings_def fetch_listings_query_def connect_def close_def read_postgis_def)

lemma fetch_listings_reachable:
  "\<not> connect_fails db \<Longrightarrow> \<not> execute_fails db \<Longrightarrow>
     fetch_listings db n r b =
       (Inr (sort_key (scan_order db)
               (select_listings db n (of_int (fst r)) (of_int (snd r)) b)), db)"
  by (simp add: fetch_listings_def fetch_listings_query_def connect_def close_def read_postgis_def
      sql_near_subway_nonempty select_listings_conn)

lemma sort_key_Nil_iff: "sort_key f xs = [] \<longleftrightarrow> xs = []"
  by (metis length_0_conv length_sort)

lemma select_listings_same_store:
  assumes "same_store db db'"
  shows "select_listings db' n lo hi b = select_listings db n lo hi b"
proof -
  have "ST_Transform db' = ST_Transform db"
    using assms by (intro ext) (simp add: same_store_def ST_Transform_def Let_def)
  moreover have "ST_Contains db' = ST_Contains db"
    using assms by (intro ext) (simp add: same_store_def ST_Contains_def)
  ultimately have "near_a_station db' = near_a_station db"
    using assms by (intro ext) (simp add: same_store_def near_a_station_def)
  with \<open>ST_Transform db' = ST_Transform db\<close> \<open>ST_Contains db' = ST_Contains db\<close>
  show ?thesis
    using assms by (simp add: same_store_def select_listings_def cong: if_cong)
qed

lemma set_select_listings:
  "set (select_listings db n lo hi b) =
     {bnb \<in> set (nyc_listings_bnb db).
        (\<exists>nh \<in> set (nyc_neighborhoods db).
           ST_Contains db (nh_geom nh)
             (ST_Transform db (bnb_listing_geom bnb) (ST_SRID (nh_geom nh))) \<and> nh_name nh = n) \<and>
        numeric_ge (bnb_price bnb) lo \<and> numeric_lt (bnb_price bnb) hi \<and>
        (b \<longrightarrow> near_a_station db bnb)}"
  by (auto simp: select_listings_def)

lemma numeric_range:
  "numeric_ge p lo \<and> numeric_lt p hi \<longleftrightarrow> (\<exists>v. p = Some v \<and> lo \<le> v \<and> v < hi)"
  by (cases p) auto

lemma select_listings_near_subway:
  "select_listings db n lo hi True = filter (near_a_station db) (select_listings db n lo hi False)"
  by (simp add: select_listings_def filter_concat comp_def if_distrib[of "filter _"] cong: if_cong)

lemma fetch_listings_Inr:
  assumes "fst (fetch_listings db n r b) = Inr rows"
  shows "\<not> connect_fails db" and "\<not> execute_fails db"
proof -
  show c: "\<not> connect_fails db"
    using assms by (cases "connect_fails db") (simp_all add: fetch_listings_connect_fails)
  show "\<not> execute_fails db"
    using assms c by (cases "execute_fails db") (simp_all add: fetch_listings_execute_fails)
qed

lemma fetch_listings_filters:
  assumes "fst (fetch_listings db n r b) = Inr rows" and "bnb \<in> set rows"
  shows "(\<exists>nh \<in> set (nyc_neighborhoods db). nh_name nh = n \<and>
            ST_Contains db (nh_geom nh)
              (ST_Transform db (bnb_listing_geom bnb) (ST_SRID (nh_geom nh)))) \<and>
         (\<exists>p. bnb_price bnb = Some p \<and> of_int (fst r) \<le> p \<and> p < of_int (snd r)) \<and>
         (b \<longrightarrow> near_a_station db bnb)"
proof -
  have ok: "\<not> connect_fails db" "\<not> execute_fails db"
    using fetch_listings_Inr[OF assms(1)] by simp_all
  then have "rows = sort_key (scan_order db)
                       (select_listings db n (of_int (fst r)) (of_int (snd r)) b)"
    using assms(1) by (simp add: fetch_listings_reachable)
  then have "bnb \<in> set (select_listings db n (of_int (fst r)) (of_int (snd r)) b)"
    using assms(2) by simp
  then show ?thesis
    unfolding set_select_listings using numeric_range[of "bnb_price bnb"] by blast
qed

lemma fetch_listings_near_subway_subset:
  assumes "fst (fetch_listings db n r True) = Inr near" 
  shows "\<exists>rows. fst (fetch_listings db n r False) = Inr rows \<and> mset near \<subseteq># mset rows"
proof -
  have ok: "\<not> connect_fails db" "\<not> execute_fails db"
    using fetch_listings_Inr[OF assms(1)] by simp_all
  then show ?thesis
    using assms by (auto simp: fetch_listings_reachable select_listings_near_subway)
qed

text \<open>Claim C2: a listing is returned with \<open>near_subway\<close> set although the only station
  of the store lies one degree of latitude away from it.\<close>

theorem fetch_listings_station_one_degree_away:
  "fst (fetch_listings (store [loft, studio] [soho] [far_station]) ''SoHo'' (100, 200) True) = Inr [loft]
   \<and> coord_x (ss_geom far_station) = coord_x (bnb_listing_geom loft)
   \<and> coord_y (ss_geom far_station) - coord_y (bnb_listing_geom loft) = 1"
  by (simp add: fetch_listings_reachable select_listings_def near_a_station_def
      ST_DWithin_def ST_Transform_def ST_Contains_def ST_SRID_def in_box_def
      store_def soho_def loft_def studio_def far_station_def)

text \<open>Claim C5: with the only station in another city, the result with \<open>near_subway\<close>
  set is the result without it.\<close>

theorem fetch_listings_near_subway_keeps_all:
  "fst (fetch_listings (store [loft, penthouse] [soho] [distant_station]) ''SoHo'' (100, 200) True) = Inr [loft]
   \<and> fst (fetch_listings (store [loft, penthouse] [soho] [distant_station]) ''SoHo'' (100, 200) False) = Inr [loft]"
  by (simp add: fetch_listings_reachable select_listings_def near_a_station_def
      ST_DWithin_def ST_Transform_def ST_Contains_def ST_SRID_def in_box_def
      store_def soho_def loft_def penthouse_def distant_station_def power2_eq_square)

text \<open>Claim C4, as the code has it: on a reachable store none of whose neighborhoods
  has the empty name, \<open>fetch_listings\<close> with the empty name returns the empty sequence,
  for every price range and both values of the flag.\<close>

theorem fetch_listings_empty_name:
  assumes "\<not> connect_fails db" and "\<not> execute_fails db"
    and "\<forall>nh \<in> set (nyc_neighborhoods db). nh_name nh \<noteq> []"
  shows "fetch_listings db [] r b = (Inr [], db)"
proof -
  have "set (select_listings db [] (of_int (fst r)) (of_int (snd r)) b) = {}"
    unfolding set_select_listings using assms(3) by blast
  then show ?thesis
    using assms(1,2) by (simp add: fetch_listings_reachable)
qed

theorem fetch_listings_empty_name_witness:
  "fetch_listings (store [loft, studio] [soho] [far_station]) [] (100, 200) False
     = (Inr [], store [loft, studio] [soho] [far_station])"
  using fetch_listings_empty_name[of "store [loft, studio] [soho] [far_station]" "(100, 200)" False]
  by (simp add: store_def soho_def)

theorem fetch_listings_empty_name_matches:
  "fst (fetch_listings (store [loft] [nameless] []) [] (100, 200) False) = Inr [loft]
   \<and> fst (fetch_listings (store [loft] [nameless] []) [] (100, 200) False) \<noteq> Inr []"
  by (simp add: fetch_listings_reachable select_listings_def
      ST_Transform_def ST_Contains_def ST_SRID_def in_box_def
      store_def nameless_def loft_def)

text \<open>Claim C6: when the connection cannot be opened or the statement fails,
  \<open>fetch_listings\<close> returns the exception; it returns the empty sequence only when
  neither failed and the query has no row.\<close>

theorem fetch_listings_failure_propagates:
  "(connect_fails db \<longrightarrow> fst (fetch_listings db n r b) = Inl OperationalError) \<and>
   (\<not> connect_fails db \<and> execute_fails db \<longrightarrow> fst (fetch_listings db n r b) = Inl DBAPIError) \<and>
   (fst (fetch_listings db n r b) = Inr [] \<longrightarrow>
      \<not> connect_fails db \<and> \<not> execute_fails db \<and>
      select_listings db n (of_int (fst r)) (of_int (snd r)) b = [])"
proof (cases "connect_fails db")
  case True
  then show ?thesis by (simp add: fetch_listings_connect_fails)
next
  case False
  then show ?thesis
    by (cases "execute_fails db")
       (simp_all add: fetch_listings_execute_fails fetch_listings_reachable sort_key_Nil_iff)
qed

theorem fetch_listings_failure_propagates_witness:
  "fst (fetch_listings (store [loft] [soho] []\<lparr>connect_fails := True\<rparr>) ''SoHo'' (100, 200) False)
     = Inl OperationalError \<and>
   fst (fetch_listings (store [loft] [soho] []\<lparr>execute_fails := True\<rparr>) ''SoHo'' (100, 200) False)
     = Inl DBAPIError \<and>
   fst (fetch_listings (store [loft] [soho] []) ''SoHo'' (200, 300) False) = Inr [] \<and>
   \<not> connect_fails (store [loft] [soho] []) \<and> \<not> execute_fails (store [loft] [soho] [])"
  using fetch_listings_failure_propagates[of "store [loft] [soho] []\<lparr>connect_fails := True\<rparr>" "''SoHo''" "(100, 200)" False]
    fetch_listings_failure_propagates[of "store [loft] [soho] []\<lparr>execute_fails := True\<rparr>" "''SoHo''" "(100, 200)" False]
  by (simp add: fetch_listings_reachable select_listings_def
      ST_Transform_def ST_Contains_def ST_SRID_def in_box_def store_def soho_def loft_def)

text \<open>Claim C7: a call of \<open>fetch_listings\<close> leaves the store as it found it, and two
  calls with the same filter on a store whose tables did not change in between return
  the same outcome, the same exception or the same multiset of listings, whatever
  the order in which the store delivers the rows to each call.\<close>

theorem fetch_listings_repeatable:
  assumes "same_store db db'"
  shows "snd (fetch_listings db n r b) = db \<and>
         map_sum id mset (fst (fetch_listings db' n r b))
           = map_sum id mset (fst (fetch_listings db n r b))"
proof -
  have flags: "connect_fails db' = connect_fails db" "execute_fails db' = execute_fails db"
    using assms by (simp_all add: same_store_def)
  note rows = select_listings_same_store[OF assms]
  show ?thesis
  proof (cases "connect_fails db")
    case True
    then show ?thesis using flags by (simp add: fetch_listings_connect_fails)
  next
    case False
    show ?thesis
    proof (cases "execute_fails db")
      case True
      then show ?thesis
        using False flags by (simp add: fetch_listings_execute_fails)
    next
      case ok: False
      then show ?thesis
        using False flags rows by (simp add: fetch_listings_reachable)
    qed
  qed
qed

theorem fetch_listings_repeatable_witness:
  "same_store (store [loft, flat] [soho] [])
     (store [loft, flat] [soho] []\<lparr>checked_out := 3, scan_order := (\<lambda>bnb. nat (10 - bnb_id bnb))\<rparr>) \<and>
   fst (fetch_listings (store [loft, flat] [soho] []) ''SoHo'' (100, 200) False) = Inr [loft, flat] \<and>
   fst (fetch_listings
         (store [loft, flat] [soho] []\<lparr>checked_out := 3, scan_order := (\<lambda>bnb. nat (10 - bnb_id bnb))\<rparr>)
         ''SoHo'' (100, 200) False) = Inr [flat, loft] \<and>
   map_sum id mset
     (fst (fetch_listings
            (store [loft, flat] [soho] []\<lparr>checked_out := 3, scan_order := (\<lambda>bnb. nat (10 - bnb_id bnb))\<rparr>)
            ''SoHo'' (100, 200) False))
     = map_sum id mset (fst (fetch_listings (store [loft, flat] [soho] []) ''SoHo'' (100, 200) False))"
proof -
  have same: "same_store (store [loft, flat] [soho] [])
     (store [loft, flat] [soho] []\<lparr>checked_out := 3, scan_order := (\<lambda>bnb. nat (10 - bnb_id bnb))\<rparr>)"
    by (simp add: same_store_def store_def)
  have first: "fst (fetch_listings (store [loft, flat] [soho] []) ''SoHo'' (100, 200) False)
                 = Inr [loft, flat]"
    by (simp add: fetch_listings_reachable select_listings_def
        ST_Transform_def ST_Contains_def ST_SRID_def in_box_def store_def soho_def loft_def flat_def)
  have second: "fst (fetch_listings
         (store [loft, flat] [soho] []\<lparr>checked_out := 3, scan_order := (\<lambda>bnb. nat (10 - bnb_id bnb))\<rparr>)
         ''SoHo'' (100, 200) False) = Inr [flat, loft]"
    by (simp add: fetch_listings_reachable select_listings_def
        ST_Transform_def ST_Contains_def ST_SRID_def in_box_def store_def soho_def loft_def flat_def)
  show ?thesis
    using same first second
      fetch_listings_repeatable[OF same, of "''SoHo''" "(100, 200)" False]
    by (intro conjI) simp_all
qed

section \<open>Facts about the page, the query text and the connection string\<close>

lemma click_without_selection:
  "selected_neighborhood p = [] \<Longrightarrow> \<not> search_clicked p \<Longrightarrow>
     interact p Click_search = (p, [Warning_select_neighborhood, Info_select_filters])"
  by (simp add: do_search_def script_def)

text \<open>Claim C8: after one search with a neighborhood selected, putting the selector
  back on its empty option makes the next run call \<open>fetch_listings\<close> with the empty
  name, and so does a click on the search button, next to its warning.\<close>

theorem search_flow_queries_empty_neighborhood:
  "runs (first_page (0, 100))
     [Select_neighborhood ''SoHo'', Click_search, Select_neighborhood [], Click_search]
   = [[Info_select_filters],
      [Call_fetch_listings ''SoHo'' (0, 100) False],
      [Call_fetch_listings [] (0, 100) False],
      [Warning_select_neighborhood, Call_fetch_listings [] (0, 100) False]]"
  by (simp add: first_page_def do_search_def script_def)

text \<open>Claim C9: two query texts built by \<open>fetch_listings\<close> are equal exactly when the
  two calls agree on \<open>near_subway\<close>, whatever the names and price ranges, and the name
  and the two price bounds are the three bound parameters.\<close>

theorem fetch_listings_query_text:
  "(fst (fetch_listings_query n r b) = fst (fetch_listings_query n' r' b')) = (b = b') \<and>
   fst (fetch_listings_query n r b) = (if b then sql_select @ sql_near_subway else sql_select) \<and>
   snd (fetch_listings_query n r b) =
     [(''neighborhood'', Text n), (''price_min'', Numeric (fst r)), (''price_max'', Numeric (snd r))]"
  using sql_near_subway_nonempty by (auto simp: fetch_listings_query_def)

theorem fetch_listings_query_text_witness:
  "fst (fetch_listings_query ''SoHo'' (100, 200) True) \<noteq> fst (fetch_listings_query ''SoHo'' (100, 200) False) \<and>
   fst (fetch_listings_query ''SoHo'' (100, 200) True) = fst (fetch_listings_query ''DROP'' (0, 1) True) \<and>
   snd (fetch_listings_query ''SoHo'' (100, 200) True) =
     [(''neighborhood'', Text ''SoHo''), (''price_min'', Numeric 100), (''price_max'', Numeric 200)]"
proof -
  note differ = fetch_listings_query_text[of "''SoHo''" "(100, 200)" True "''SoHo''" "(100, 200)" False]
  note agree = fetch_listings_query_text[of "''SoHo''" "(100, 200)" True "''DROP''" "(0, 1)" True]
  have 1: "fst (fetch_listings_query ''SoHo'' (100, 200) True)
             \<noteq> fst (fetch_listings_query ''SoHo'' (100, 200) False)"
    using differ by blast
  have 2: "fst (fetch_listings_query ''SoHo'' (100, 200) True)
             = fst (fetch_listings_query ''DROP'' (0, 1) True)"
    using agree by blast
  have 3: "snd (fetch_listings_query ''SoHo'' (100, 200) True) =
     [(''neighborhood'', Text ''SoHo''), (''price_min'', Numeric 100), (''price_max'', Numeric 200)]"
    using agree by simp
  show ?thesis using 1 2 3 by (intro conjI)
qed




end
